theory Spec2Isabelle
  imports Complex_Main "HOL-Library.Word"
begin

unbundle bit_operations_syntax

section \<open>Data model of CObservation2DRangeScan\<close>

text \<open>
  The record is the C++ class of \<^verbatim>\<open>CObservation2DRangeScan.cpp\<close>. A \<^verbatim>\<open>float\<close> is kept
  as its IEEE-754 single bit pattern (a 32-bit word), a \<^verbatim>\<open>double\<close> as a 64-bit word, so
  that the codec moves bits and nothing else. \<^verbatim>\<open>validRange\<close> is a \<^verbatim>\<open>std::vector<char>\<close>:
  a list of bytes, zero meaning invalid. \<^verbatim>\<open>sensorLabel\<close> is a \<^verbatim>\<open>std::string\<close>: a list of
  bytes. The pose type \<open>'p\<close> and the cached map type \<open>'m\<close> belong to other libraries and
  stay abstract. The header that declares the fields is not among the sources:
  \<open>aperture\<close>, \<open>maxRange\<close>, \<open>stdError\<close> and \<open>beamAperture\<close> are \<^verbatim>\<open>float\<close>, \<open>deltaPitch\<close>
  is a \<^verbatim>\<open>double\<close>, \<open>timestamp\<close> a 64-bit integer, and an entry of \<open>intensity\<close> a 32-bit
  value, kept as its bit pattern like the floats.
\<close>

type_synonym byte = "8 word"
type_synonym float32 = "32 word"
type_synonym float64 = "64 word"
type_synonym stream = "byte list"

datatype error =
    UnknownVersion
  | IOError
  | AssertionFailed
  | OutOfBounds
  | UndefinedConversion

record ('p, 'm) CObservation2DRangeScan =
  scan :: "float32 list"
  intensity :: "32 word list"
  validRange :: "byte list"
  aperture :: float32
  rightToLeft :: bool
  maxRange :: float32
  sensorPose :: 'p
  stdError :: float32
  beamAperture :: float32
  deltaPitch :: float64
  timestamp :: "64 word"
  sensorLabel :: "byte list"
  m_cachedMap :: "'m option"

subsection \<open>Floats as bit patterns\<close>

text \<open>
  The value of a single: sign bit 31, exponent bits 30..23, mantissa bits 22..0. The
  patterns with exponent 255 and mantissa 0 (the infinities) get the magnitude \<open>2 ^ 128\<close>,
  above every finite single, so the order of values is the IEEE order on everything
  that is not a NaN; NaNs are singled out by \<open>isnan\<close>.
\<close>

definition float_val :: "float32 \<Rightarrow> real" where
  "float_val w =
     (let e = unat (drop_bit 23 w AND 0xFF); m = unat (w AND 0x7FFFFF);
          mag = (if e = 0 then real m * 2 / 2 ^ 150 else real (2 ^ 23 + m) * 2 ^ e / 2 ^ 150)
      in if bit w 31 then - mag else mag)"

definition isnan :: "float32 \<Rightarrow> bool" where
  "isnan w = (drop_bit 23 w AND 0xFF = 0xFF \<and> w AND 0x7FFFFF \<noteq> 0)"

text \<open>The C++ comparison \<^verbatim>\<open>a < b\<close> on floats: false as soon as one side is a NaN.\<close>

definition float_lt :: "float32 \<Rightarrow> float32 \<Rightarrow> bool" where
  "float_lt a b = (\<not> isnan a \<and> \<not> isnan b \<and> float_val a < float_val b)"

text \<open>The literal \<^verbatim>\<open>0.01f\<close>.\<close>

definition float_0_01 :: float32 where
  "float_0_01 = 0x3C23D70A"

text \<open>
  Modelled from the spec: the macro \<^verbatim>\<open>DEG2RAD\<close> is declared in a header that is not among
  the sources. \<^verbatim>\<open>DEG2RAD(0.25f)\<close> is "0.25 degrees in radians", \<open>pi / 720\<close>, as a single.
\<close>

definition DEG2RAD_0_25 :: float32 where
  "DEG2RAD_0_25 = 0x3B8EFA35"

section \<open>The binary stream\<close>

text \<open>
  Modelled from the spec: \<^verbatim>\<open>mrpt::utils::CStream\<close> is an external collaborator ("read/write
  of primitive values and byte buffers with endianness normalization"). A stream is the
  list of bytes still to be read; a read past its end is the I/O error of the stream.
  Numbers travel least significant byte first.
\<close>

fun le_bytes :: "nat \<Rightarrow> 'a::len word \<Rightarrow> byte list" where
  "le_bytes 0 w = []"
| "le_bytes (Suc n) w = ucast w # le_bytes n (drop_bit 8 w)"

fun le_word :: "byte list \<Rightarrow> 'a::len word" where
  "le_word [] = 0"
| "le_word (b # bs) = ucast b OR push_bit 8 (le_word bs)"

definition ReadBuffer :: "nat \<Rightarrow> stream \<Rightarrow> error + (byte list \<times> stream)" where
  "ReadBuffer n s = (if length s < n then Inl IOError else Inr (take n s, drop n s))"

definition WriteBuffer :: "byte list \<Rightarrow> stream" where
  "WriteBuffer bs = bs"

definition read_word :: "nat \<Rightarrow> stream \<Rightarrow> error + ('a::len word \<times> stream)" where
  "read_word n s =
     (case ReadBuffer n s of Inl e \<Rightarrow> Inl e | Inr (bs, s') \<Rightarrow> Inr (le_word bs, s'))"

definition read_float :: "stream \<Rightarrow> error + (float32 \<times> stream)" where
  "read_float = read_word 4"

definition read_double :: "stream \<Rightarrow> error + (float64 \<times> stream)" where
  "read_double = read_word 8"

definition read_uint32 :: "stream \<Rightarrow> error + (32 word \<times> stream)" where
  "read_uint32 = read_word 4"

definition read_uint64 :: "stream \<Rightarrow> error + (64 word \<times> stream)" where
  "read_uint64 = read_word 8"

definition read_bool :: "stream \<Rightarrow> error + (bool \<times> stream)" where
  "read_bool s = (case s of [] \<Rightarrow> Inl IOError | b # s' \<Rightarrow> Inr (b \<noteq> 0, s'))"

definition read_string :: "stream \<Rightarrow> error + (byte list \<times> stream)" where
  "read_string s =
     (case read_uint32 s of Inl e \<Rightarrow> Inl e | Inr (n, s') \<Rightarrow> ReadBuffer (unat n) s')"

fun ReadBufferFixEndianness :: "nat \<Rightarrow> stream \<Rightarrow> error + (32 word list \<times> stream)" where
  "ReadBufferFixEndianness 0 s = Inr ([], s)"
| "ReadBufferFixEndianness (Suc n) s =
     (case read_word 4 s of
        Inl e \<Rightarrow> Inl e
      | Inr (w, s') \<Rightarrow>
          (case ReadBufferFixEndianness n s' of
             Inl e \<Rightarrow> Inl e
           | Inr (ws, s'') \<Rightarrow> Inr (w # ws, s'')))"

definition write_float :: "float32 \<Rightarrow> stream" where
  "write_float w = le_bytes 4 w"

definition write_double :: "float64 \<Rightarrow> stream" where
  "write_double w = le_bytes 8 w"

definition write_uint32 :: "32 word \<Rightarrow> stream" where
  "write_uint32 w = le_bytes 4 w"

definition write_uint64 :: "64 word \<Rightarrow> stream" where
  "write_uint64 w = le_bytes 8 w"

definition write_bool :: "bool \<Rightarrow> stream" where
  "write_bool b = [if b then 1 else 0]"

definition write_string :: "byte list \<Rightarrow> stream" where
  "write_string str = write_uint32 (word_of_nat (length str)) @ WriteBuffer str"

definition WriteBufferFixEndianness :: "32 word list \<Rightarrow> stream" where
  "WriteBufferFixEndianness ws = concat (map (le_bytes 4) ws)"

text \<open>
  The serialisation of the sensor pose (\<^verbatim>\<open>CPose3D\<close>) and of the legacy covariance matrix
  (\<^verbatim>\<open>CMatrix\<close>, read and thrown away) is code of other classes: a parameter of the codec.
  A reader returns the value with the rest of the stream, or nothing; whatever made it
  return nothing is reported as the I/O error of the stream.
\<close>

record 'p serializers =
  readPose :: "stream \<Rightarrow> ('p \<times> stream) option"
  writePose :: "'p \<Rightarrow> stream"
  readMatrix :: "stream \<Rightarrow> stream option"

definition read_pose :: "'p serializers \<Rightarrow> stream \<Rightarrow> error + ('p \<times> stream)" where
  "read_pose X s = (case readPose X s of None \<Rightarrow> Inl IOError | Some v \<Rightarrow> Inr v)"

subsection \<open>Statements that read into the object\<close>

text \<open>
  The object is assigned field by field while the stream is read, and an exception leaves
  it as it is at that moment: a failing step returns the error with the object reached.
\<close>

type_synonym 'r step = "'r \<times> stream \<Rightarrow> (error \<times> 'r) + ('r \<times> stream)"

definition read_into :: "(stream \<Rightarrow> error + ('a \<times> stream)) \<Rightarrow> ('a \<Rightarrow> 'r \<Rightarrow> 'r) \<Rightarrow> 'r step" where
  "read_into rd upd = (\<lambda>(r, s). case rd s of Inl e \<Rightarrow> Inl (e, r) | Inr (v, s') \<Rightarrow> Inr (upd v r, s'))"

definition read_then :: "(stream \<Rightarrow> error + ('a \<times> stream)) \<Rightarrow> ('a \<Rightarrow> 'r step) \<Rightarrow> 'r step" where
  "read_then rd k = (\<lambda>(r, s). case rd s of Inl e \<Rightarrow> Inl (e, r) | Inr (v, s') \<Rightarrow> k v (r, s'))"

definition discard :: "(stream \<Rightarrow> stream option) \<Rightarrow> 'r step" where
  "discard rd = (\<lambda>(r, s). case rd s of None \<Rightarrow> Inl (IOError, r) | Some s' \<Rightarrow> Inr (r, s'))"

definition assign :: "('r \<Rightarrow> 'r) \<Rightarrow> 'r step" where
  "assign f = (\<lambda>(r, s). Inr (f r, s))"

definition skip :: "'r step" where
  "skip = Inr"

fun steps :: "'r step list \<Rightarrow> 'r step" where
  "steps [] st = Inr st"
| "steps (f # fs) st = (case f st of Inl e \<Rightarrow> Inl e | Inr st' \<Rightarrow> steps fs st')"

text \<open>\<^verbatim>\<open>std::vector::resize\<close>: cut, or fill up with zeros.\<close>

definition resize :: "nat \<Rightarrow> 'a::zero list \<Rightarrow> 'a list" where
  "resize n xs = take n xs @ replicate (n - length xs) 0"

section \<open>writeToStream\<close>

text \<open>Called with a version pointer, \<^verbatim>\<open>writeToStream\<close> only answers the version: 7.\<close>

definition writeToStream_version :: int where
  "writeToStream_version = 7"

text \<open>
  Called without, it writes the fields. The result is the bytes written; when the
  assertion or an out-of-range read stops it, the error comes with the bytes written so
  far. \<open>N\<close> is a \<^verbatim>\<open>uint32_t\<close>: the size of \<open>scan\<close> modulo \<open>2 ^ 32\<close>.
\<close>

definition writeToStream ::
  "'p serializers \<Rightarrow> ('p, 'm) CObservation2DRangeScan \<Rightarrow> (error \<times> stream) + stream" where
  "writeToStream X r =
     (let N = (word_of_nat (length (scan r)) :: 32 word);
          out1 = write_float (aperture r) @ write_bool (rightToLeft r) @
                 write_float (maxRange r) @ writePose X (sensorPose r) @ write_uint32 N
      in if length (validRange r) \<noteq> length (scan r) then Inl (AssertionFailed, out1)
         else
           let out2 = out1 @
                 (if N \<noteq> 0
                  then WriteBufferFixEndianness (take (unat N) (scan r)) @
                       WriteBuffer (take (unat N) (validRange r))
                  else []) @
                 write_float (stdError r) @ write_uint64 (timestamp r) @
                 write_float (beamAperture r) @ write_string (sensorLabel r) @
                 write_double (deltaPitch r) @ write_bool (intensity r \<noteq> [])
           in if intensity r = [] then Inr out2
              else if length (intensity r) < unat N then Inl (OutOfBounds, out2)
              else Inr (out2 @ WriteBufferFixEndianness (take (unat N) (intensity r))))"

section \<open>readFromStream\<close>

text \<open>
  \<^verbatim>\<open>readFromStream(in, version)\<close> works on the object it is called on: fields the layout of
  a version does not hold keep the value they had, unless the code assigns a default.
  The result is the object and the rest of the stream, or the error with the object as
  the exception leaves it. \<^verbatim>\<open>m_cachedMap.clear()\<close> follows the \<^verbatim>\<open>switch\<close>, so it is not
  reached when a \<^verbatim>\<open>case\<close> throws.
\<close>

definition read_v0_3 ::
  "'p serializers \<Rightarrow> int \<Rightarrow> ('p, 'm) CObservation2DRangeScan step" where
  "read_v0_3 X version =
     steps
      [read_into read_float (\<lambda>v r. r\<lparr>aperture := v\<rparr>),
       read_into read_bool (\<lambda>v r. r\<lparr>rightToLeft := v\<rparr>),
       read_into read_float (\<lambda>v r. r\<lparr>maxRange := v\<rparr>),
       read_into (read_pose X) (\<lambda>v r. r\<lparr>sensorPose := v\<rparr>),
       discard (readMatrix X),
       read_then read_uint32 (\<lambda>N. steps
        [assign (\<lambda>r. r\<lparr>scan := resize (unat N) (scan r)\<rparr>),
         if N \<noteq> 0
         then read_into (ReadBufferFixEndianness (unat N)) (\<lambda>v r. r\<lparr>scan := v\<rparr>)
         else skip,
         if version \<ge> 1
         then steps
           [assign (\<lambda>r. r\<lparr>validRange := resize (unat N) (validRange r)\<rparr>),
            if N \<noteq> 0
            then read_into (ReadBuffer (unat N)) (\<lambda>v r. r\<lparr>validRange := v\<rparr>)
            else skip]
         else steps
           [assign (\<lambda>r. r\<lparr>validRange := resize (unat N) (validRange r)\<rparr>),
            assign (\<lambda>r. r\<lparr>validRange :=
              map (\<lambda>i. if float_lt (scan r ! i) (maxRange r) then 1 else 0) [0..<unat N]\<rparr>)],
         if version \<ge> 2
         then read_into read_float (\<lambda>v r. r\<lparr>stdError := v\<rparr>)
         else assign (\<lambda>r. r\<lparr>stdError := float_0_01\<rparr>),
         if version \<ge> 3
         then read_into read_uint64 (\<lambda>v r. r\<lparr>timestamp := v\<rparr>)
         else skip,
         assign (\<lambda>r. r\<lparr>beamAperture := DEG2RAD_0_25\<rparr>),
         assign (\<lambda>r. r\<lparr>deltaPitch := 0\<rparr>),
         assign (\<lambda>r. r\<lparr>sensorLabel := []\<rparr>)])]"

definition read_v4_7 ::
  "'p serializers \<Rightarrow> int \<Rightarrow> ('p, 'm) CObservation2DRangeScan step" where
  "read_v4_7 X version =
     steps
      [read_into read_float (\<lambda>v r. r\<lparr>aperture := v\<rparr>),
       read_into read_bool (\<lambda>v r. r\<lparr>rightToLeft := v\<rparr>),
       read_into read_float (\<lambda>v r. r\<lparr>maxRange := v\<rparr>),
       read_into (read_pose X) (\<lambda>v r. r\<lparr>sensorPose := v\<rparr>),
       if version < 6 then discard (readMatrix X) else skip,
       read_then read_uint32 (\<lambda>N. steps
        [assign (\<lambda>r. r\<lparr>scan := resize (unat N) (scan r)\<rparr>),
         assign (\<lambda>r. r\<lparr>validRange := resize (unat N) (validRange r)\<rparr>),
         if N \<noteq> 0
         then steps
           [read_into (ReadBufferFixEndianness (unat N)) (\<lambda>v r. r\<lparr>scan := v\<rparr>),
            read_into (ReadBuffer (unat N)) (\<lambda>v r. r\<lparr>validRange := v\<rparr>)]
         else skip,
         read_into read_float (\<lambda>v r. r\<lparr>stdError := v\<rparr>),
         read_into read_uint64 (\<lambda>v r. r\<lparr>timestamp := v\<rparr>),
         read_into read_float (\<lambda>v r. r\<lparr>beamAperture := v\<rparr>),
         if version \<ge> 5
         then steps
           [read_into read_string (\<lambda>v r. r\<lparr>sensorLabel := v\<rparr>),
            read_into read_double (\<lambda>v r. r\<lparr>deltaPitch := v\<rparr>)]
         else steps
           [assign (\<lambda>r. r\<lparr>sensorLabel := []\<rparr>),
            assign (\<lambda>r. r\<lparr>deltaPitch := 0\<rparr>)],
         if version \<ge> 7
         then read_then read_bool (\<lambda>hasIntensity.
           if hasIntensity \<and> N \<noteq> 0
           then steps
             [assign (\<lambda>r. r\<lparr>intensity := resize (unat N) (intensity r)\<rparr>),
              read_into (ReadBufferFixEndianness (unat N)) (\<lambda>v r. r\<lparr>intensity := v\<rparr>)]
           else skip)
         else skip])]"

definition readFromStream ::
  "'p serializers \<Rightarrow> stream \<Rightarrow> int \<Rightarrow> ('p, 'm) CObservation2DRangeScan \<Rightarrow>
     (error \<times> ('p, 'm) CObservation2DRangeScan) + (('p, 'm) CObservation2DRangeScan \<times> stream)" where
  "readFromStream X s version r =
     (if version = 0 \<or> version = 1 \<or> version = 2 \<or> version = 3
      then steps [read_v0_3 X version, assign (\<lambda>r. r\<lparr>m_cachedMap := None\<rparr>)] (r, s)
      else if version = 4 \<or> version = 5 \<or> version = 6 \<or> version = 7
      then steps [read_v4_7 X version, assign (\<lambda>r. r\<lparr>m_cachedMap := None\<rparr>)] (r, s)
      else Inl (UnknownVersion, r))"

section \<open>Scan geometry and the exclusion filters\<close>

text \<open>
  The filters compute with angles. Their arithmetic is taken on the real values of the
  floats and doubles involved (\<open>float_val\<close> for a \<^verbatim>\<open>float\<close> field, a real for a
  \<^verbatim>\<open>double\<close>): rounding of intermediate results is left out. Comparisons that the code
  makes between two floats are the IEEE comparisons. Where the code divides the float
  \<open>aperture\<close> by a number of rays in single precision, or rounds an angle to a float, the
  definitions below divide exactly: they give the code's indices and angles at inputs
  whose quotients are exact in single precision, as those of the concrete scans of this
  theory are, and can give a neighbouring index or angle where the code rounds. Floats
  that are infinite or not a number are outside this arithmetic.
\<close>

text \<open>
  Both \<^verbatim>\<open>filterByExclusionAreas\<close> and \<^verbatim>\<open>filterByExclusionAngles\<close> start with the same
  lines: the angle \<^verbatim>\<open>Ang\<close> of ray 0 and the step \<^verbatim>\<open>dA\<close>, from \<^verbatim>\<open>aperture\<close>,
  \<^verbatim>\<open>rightToLeft\<close> and \<^verbatim>\<open>sizeRangeScan - 1\<close>.
\<close>

definition sweep_Ang :: "('p, 'm) CObservation2DRangeScan \<Rightarrow> real" where
  "sweep_Ang r =
     (if rightToLeft r then - 0.5 * float_val (aperture r) else 0.5 * float_val (aperture r))"

definition sweep_dA :: "('p, 'm) CObservation2DRangeScan \<Rightarrow> real" where
  "sweep_dA r =
     (if rightToLeft r then float_val (aperture r) / real (length (scan r) - 1)
      else - float_val (aperture r) / real (length (scan r) - 1))"

subsection \<open>truncateByDistanceAndAngle\<close>

text \<open>The test \<^verbatim>\<open>ang > max_angle\<close> of a computed angle against a float argument.\<close>

definition above_float :: "real \<Rightarrow> float32 \<Rightarrow> bool" where
  "above_float x f = (\<not> isnan f \<and> float_val f < x)"

text \<open>The angle the loop computes for ray \<open>k\<close>: \<^verbatim>\<open>fabs(k*aperture/nPts - aperture*0.5)\<close>.\<close>

definition truncate_ang :: "real \<Rightarrow> nat \<Rightarrow> nat \<Rightarrow> real" where
  "truncate_ang ap nPts k = \<bar>real k * ap / real nPts - ap * 0.5\<bar>"

text \<open>
  The loop walks \<open>scan\<close> and \<open>validRange\<close> with two iterators and the counter \<open>k\<close>, an
  \<^verbatim>\<open>unsigned int\<close>. \<open>i\<close> is the position of the iterators; \<^verbatim>\<open>*itValid = false\<close> at a
  position past the end of \<open>validRange\<close> is the error \<open>OutOfBounds\<close>. The assertion on
  the height band sits inside the loop.
\<close>

fun truncate_loop ::
  "float32 \<Rightarrow> float32 \<Rightarrow> float32 \<Rightarrow> float32 \<Rightarrow> float32 \<Rightarrow> real \<Rightarrow> nat \<Rightarrow> nat \<Rightarrow>
     float32 list \<Rightarrow> byte list \<Rightarrow> (error \<times> byte list) + byte list" where
  "truncate_loop min_distance max_angle min_height max_height h ap nPts i [] v = Inr v"
| "truncate_loop min_distance max_angle min_height max_height h ap nPts i (d # ds) v =
     (let ang = truncate_ang ap nPts (i mod 2 ^ 32);
          x = float_val d * cos ang
      in if float_val min_height \<noteq> 0 \<or> float_val max_height \<noteq> 0
         then
           if \<not> float_lt min_height max_height then Inl (AssertionFailed, v)
           else if float_lt d min_distance \<or> above_float ang max_angle \<or>
                   x > float_val h - float_val min_height \<or>
                   x < float_val h - float_val max_height
           then
             if i < length v
             then truncate_loop min_distance max_angle min_height max_height h ap nPts
                    (Suc i) ds (v[i := 0])
             else Inl (OutOfBounds, v)
           else truncate_loop min_distance max_angle min_height max_height h ap nPts
                  (Suc i) ds v
         else
           if float_lt d min_distance \<or> above_float ang max_angle
           then
             if i < length v
             then truncate_loop min_distance max_angle min_height max_height h ap nPts
                    (Suc i) ds (v[i := 0])
             else Inl (OutOfBounds, v)
           else truncate_loop min_distance max_angle min_height max_height h ap nPts
                  (Suc i) ds v)"

definition truncateByDistanceAndAngle ::
  "float32 \<Rightarrow> float32 \<Rightarrow> float32 \<Rightarrow> float32 \<Rightarrow> float32 \<Rightarrow>
     ('p, 'm) CObservation2DRangeScan \<Rightarrow>
     (error \<times> ('p, 'm) CObservation2DRangeScan) + ('p, 'm) CObservation2DRangeScan" where
  "truncateByDistanceAndAngle min_distance max_angle min_height max_height h r =
     (case truncate_loop min_distance max_angle min_height max_height h
             (float_val (aperture r)) (length (scan r) mod 2 ^ 32) 0 (scan r) (validRange r) of
        Inl (e, v) \<Rightarrow> Inl (e, r\<lparr>validRange := v\<rparr>)
      | Inr v \<Rightarrow> Inr (r\<lparr>validRange := v\<rparr>))"

subsection \<open>filterByExclusionAreas\<close>

text \<open>
  The pose's \<^verbatim>\<open>composePoint\<close> and the polygon's \<^verbatim>\<open>PointIntoPolygon\<close> are code of other
  libraries: parameters of the filter. An area is a polygon with its band of heights.
\<close>

record ('p, 'g) geometry =
  composePoint :: "'p \<Rightarrow> real \<times> real \<times> real \<Rightarrow> real \<times> real \<times> real"
  PointIntoPolygon :: "'g \<Rightarrow> real \<Rightarrow> real \<Rightarrow> bool"

fun inside_any :: "('p, 'g) geometry \<Rightarrow> ('g \<times> real \<times> real) list \<Rightarrow> real \<times> real \<times> real \<Rightarrow> bool" where
  "inside_any G [] P = False"
| "inside_any G ((poly, zmin, zmax) # areas) (Gx, Gy, Gz) =
     (if PointIntoPolygon G poly Gx Gy \<and> Gz \<ge> zmin \<and> Gz \<le> zmax then True
      else inside_any G areas (Gx, Gy, Gz))"

fun areas_loop ::
  "('p, 'g) geometry \<Rightarrow> 'p \<Rightarrow> ('g \<times> real \<times> real) list \<Rightarrow> real \<Rightarrow> real \<Rightarrow>
     float32 list \<Rightarrow> byte list \<Rightarrow> byte list" where
  "areas_loop G pose areas dA Ang [] vs = vs"
| "areas_loop G pose areas dA Ang (d # ds) [] = []"
| "areas_loop G pose areas dA Ang (d # ds) (v # vs) =
     (if v = 0 then v # areas_loop G pose areas dA (Ang + dA) ds vs
      else
        let Lx = float_val d * cos Ang; Ly = float_val d * sin Ang
        in (if inside_any G areas (composePoint G pose (Lx, Ly, 0)) then 0 else v) #
           areas_loop G pose areas dA (Ang + dA) ds vs)"

definition filterByExclusionAreas ::
  "('p, 'g) geometry \<Rightarrow> ('g \<times> real \<times> real) list \<Rightarrow> ('p, 'm) CObservation2DRangeScan \<Rightarrow>
     (error \<times> ('p, 'm) CObservation2DRangeScan) + ('p, 'm) CObservation2DRangeScan" where
  "filterByExclusionAreas G areas r =
     (if areas = [] then Inr r
      else if length (scan r) \<noteq> length (validRange r) then Inl (AssertionFailed, r)
      else if length (scan r) = 0 then Inr r
      else Inr (r\<lparr>validRange :=
             areas_loop G (sensorPose r) areas (sweep_dA r) (sweep_Ang r) (scan r) (validRange r)\<rparr>))"

text \<open>\<^verbatim>\<open>std::numeric_limits<double>::max()\<close>.\<close>

definition DBL_MAX :: real where
  "DBL_MAX = (2 ^ 53 - 1) * 2 ^ 971"

text \<open>The overload that takes bare polygons.\<close>

definition filterByExclusionAreas_polygons ::
  "('p, 'g) geometry \<Rightarrow> 'g list \<Rightarrow> ('p, 'm) CObservation2DRangeScan \<Rightarrow>
     (error \<times> ('p, 'm) CObservation2DRangeScan) + ('p, 'm) CObservation2DRangeScan" where
  "filterByExclusionAreas_polygons G areas r =
     (if areas = [] then Inr r
      else filterByExclusionAreas G (map (\<lambda>a. (a, - DBL_MAX, DBL_MAX)) areas) r)"

subsection \<open>filterByExclusionAngles\<close>

text \<open>
  Modelled from the spec: \<^verbatim>\<open>mrpt::math::wrapTo2Pi\<close> is declared in a header that is not
  among the sources: the "normalization of an angle into a canonical [0, 2\<pi>)".
\<close>

definition wrapTo2Pi :: "real \<Rightarrow> real" where
  "wrapTo2Pi a = a - 2 * pi * of_int \<lfloor>a / (2 * pi)\<rfloor>"

text \<open>
  A \<^verbatim>\<open>double\<close> assigned to an \<^verbatim>\<open>int\<close> is cut towards zero; outside the range of \<^verbatim>\<open>int\<close>
  the conversion is undefined.
\<close>

definition double_to_int :: "real \<Rightarrow> error + int" where
  "double_to_int x =
     (let t = (if 0 \<le> x then \<lfloor>x\<rfloor> else \<lceil>x\<rceil>)
      in if - (2 ^ 31) \<le> t \<and> t < 2 ^ 31 then Inr t else Inl UndefinedConversion)"

text \<open>
  \<^verbatim>\<open>int ap_idx = wrapTo2Pi(a - Ang) / dA\<close>. With a single ray \<open>dA\<close> is \<open>aperture / 0\<close>,
  infinite for an aperture other than 0, and the quotient is 0; a \<open>dA\<close> that is 0 or
  not a number makes the quotient infinite or not a number, which no \<^verbatim>\<open>int\<close> holds.
\<close>

definition ap_idx :: "('p, 'm) CObservation2DRangeScan \<Rightarrow> real \<Rightarrow> error + int" where
  "ap_idx r a =
     (if float_val (aperture r) = 0 then Inl UndefinedConversion
      else if length (scan r) = 1 then Inr 0
      else double_to_int (wrapTo2Pi (a - sweep_Ang r) / sweep_dA r))"

text \<open>The casts \<^verbatim>\<open>(int)sizeRangeScan\<close> and \<^verbatim>\<open>size_t idx = ap_idx\<close>, with a 64-bit \<^verbatim>\<open>size_t\<close>.\<close>

definition int_of_size :: "nat \<Rightarrow> int" where
  "int_of_size n = sint (word_of_nat n :: 32 word)"

definition size_of_int :: "int \<Rightarrow> nat" where
  "size_of_int i = unat (word_of_int i :: 64 word)"

text \<open>
  The four lines that bound an index:
  \<^verbatim>\<open>if (ap_idx<0) ap_idx=0; if (ap_idx>(int)sizeRangeScan) ap_idx=sizeRangeScan-1;\<close>
\<close>

definition clamp_idx :: "nat \<Rightarrow> int \<Rightarrow> int" where
  "clamp_idx sizeRangeScan a =
     (let a1 = (if a < 0 then 0 else a)
      in if a1 > int_of_size sizeRangeScan then int_of_size (sizeRangeScan - 1) else a1)"

text \<open>
  \<^verbatim>\<open>for (i = from; ...; i++) validRange[i] = false\<close>, run \<open>n\<close> times. A write past the end
  of \<open>validRange\<close> is the error \<open>OutOfBounds\<close>.
\<close>

fun invalidate :: "nat \<Rightarrow> nat \<Rightarrow> byte list \<Rightarrow> (error \<times> byte list) + byte list" where
  "invalidate i 0 v = Inr v"
| "invalidate i (Suc n) v =
     (if i < length v then invalidate (Suc i) n (v[i := 0]) else Inl (OutOfBounds, v))"

text \<open>The two branches on \<^verbatim>\<open>idx_end >= idx_ini\<close>.\<close>

definition exclude_range :: "nat \<Rightarrow> nat \<Rightarrow> nat \<Rightarrow> byte list \<Rightarrow> (error \<times> byte list) + byte list" where
  "exclude_range sizeRangeScan idx_ini idx_end v =
     (if idx_end \<ge> idx_ini then invalidate idx_ini (idx_end + 1 - idx_ini) v
      else
        case invalidate 0 idx_end v of
          Inl e \<Rightarrow> Inl e
        | Inr v' \<Rightarrow> invalidate idx_ini (sizeRangeScan - idx_ini) v')"

definition exclude_pair ::
  "('p, 'm) CObservation2DRangeScan \<Rightarrow> real \<times> real \<Rightarrow> byte list \<Rightarrow> (error \<times> byte list) + byte list" where
  "exclude_pair r a v =
     (case ap_idx r (fst a) of
        Inl e \<Rightarrow> Inl (e, v)
      | Inr ap_idx_ini \<Rightarrow>
          (case ap_idx r (snd a) of
             Inl e \<Rightarrow> Inl (e, v)
           | Inr ap_idx_end \<Rightarrow>
               exclude_range (length (scan r))
                 (size_of_int (clamp_idx (length (scan r)) ap_idx_ini))
                 (size_of_int (clamp_idx (length (scan r)) ap_idx_end)) v))"

fun angles_loop ::
  "('p, 'm) CObservation2DRangeScan \<Rightarrow> (real \<times> real) list \<Rightarrow> byte list \<Rightarrow>
     (error \<times> byte list) + byte list" where
  "angles_loop r [] v = Inr v"
| "angles_loop r (a # angles) v =
     (case exclude_pair r a v of Inl e \<Rightarrow> Inl e | Inr v' \<Rightarrow> angles_loop r angles v')"

definition filterByExclusionAngles ::
  "(real \<times> real) list \<Rightarrow> ('p, 'm) CObservation2DRangeScan \<Rightarrow>
     (error \<times> ('p, 'm) CObservation2DRangeScan) + ('p, 'm) CObservation2DRangeScan" where
  "filterByExclusionAngles angles r =
     (if angles = [] then Inr r
      else if length (scan r) \<noteq> length (validRange r) then Inl (AssertionFailed, r)
      else if length (scan r) = 0 then Inr r
      else
        case angles_loop r angles (validRange r) of
          Inl (e, v) \<Rightarrow> Inl (e, r\<lparr>validRange := v\<rparr>)
        | Inr v \<Rightarrow> Inr (r\<lparr>validRange := v\<rparr>))"

section \<open>Concrete objects and streams\<close>

text \<open>
  The constructor: empty arrays and the defaults of the class (aperture \<^verbatim>\<open>M_PI\<close>, right to
  left, maximum range 80). The pose and the timestamp come from the base classes.
\<close>

definition constructed :: "'p \<Rightarrow> 64 word \<Rightarrow> ('p, 'm) CObservation2DRangeScan" where
  "constructed p t =
     \<lparr>scan = [], intensity = [], validRange = [], aperture = 0x40490FDB, rightToLeft = True,
      maxRange = 0x42A00000, sensorPose = p, stdError = float_0_01, beamAperture = 0,
      deltaPitch = 0, timestamp = t, sensorLabel = [], m_cachedMap = None\<rparr>"

text \<open>
  An instance of the external serialisers, small enough to compute with: a pose is one
  byte, a matrix is a length byte followed by that many bytes.
\<close>

definition byte_serializers :: "byte serializers" where
  "byte_serializers =
     \<lparr>readPose = (\<lambda>s. case s of [] \<Rightarrow> None | b # s' \<Rightarrow> Some (b, s')),
      writePose = (\<lambda>p. [p]),
      readMatrix = (\<lambda>s. case s of [] \<Rightarrow> None
                       | n # s' \<Rightarrow> if length s' < unat n then None else Some (drop (unat n) s'))\<rparr>"

text \<open>
  An instance of the external geometry: the pose leaves a point where it is, a polygon
  is a box \<open>(x0, y0, x1, y1)\<close>.
\<close>

definition box_geometry :: "(byte, real \<times> real \<times> real \<times> real) geometry" where
  "box_geometry =
     \<lparr>composePoint = (\<lambda>p P. P),
      PointIntoPolygon = (\<lambda>(x0, y0, x1, y1) x y. x0 \<le> x \<and> x \<le> x1 \<and> y0 \<le> y \<and> y \<le> y1)\<rparr>"

text \<open>
  A version-0 body: aperture 1.0, right to left, maximum range 80.0, a pose, an empty
  matrix, two rays of 1.0 and 100.0.
\<close>

definition stream_v0 :: stream where
  "stream_v0 = [0, 0, 0x80, 0x3F, 1, 0, 0, 0xA0, 0x42, 7, 0, 2, 0, 0, 0,
                0, 0, 0x80, 0x3F, 0, 0, 0xC8, 0x42]"

text \<open>
  A version-4 body: the same head, one ray of 1.0 marked valid, stdError 0.01,
  timestamp 9, beamAperture 0.
\<close>

definition stream_v4 :: stream where
  "stream_v4 = [0, 0, 0x80, 0x3F, 1, 0, 0, 0xA0, 0x42, 7, 0, 1, 0, 0, 0,
                0, 0, 0x80, 0x3F, 1, 0x0A, 0xD7, 0x23, 0x3C, 9, 0, 0, 0, 0, 0, 0, 0,
                0, 0, 0, 0]"

text \<open>
  A version-7 body with the "has intensity" flag false: no matrix, one ray, an empty
  label, deltaPitch 0.
\<close>

definition stream_v7 :: stream where
  "stream_v7 = [0, 0, 0x80, 0x3F, 1, 0, 0, 0xA0, 0x42, 7, 1, 0, 0, 0,
                0, 0, 0x80, 0x3F, 1, 0x0A, 0xD7, 0x23, 0x3C, 9, 0, 0, 0, 0, 0, 0, 0,
                0, 0, 0, 0, 0, 0, 0, 0, 0, 0, 0, 0, 0, 0, 0, 0, 0]"

text \<open>An object that holds a scan of two rays with their intensities.\<close>

definition used_obs :: "(byte, unit) CObservation2DRangeScan" where
  "used_obs = (constructed 0 5)
     \<lparr>scan := [0x3F800000, 0x40000000], validRange := [1, 1], intensity := [7, 8]\<rparr>"

text \<open>An object with a value of its own in every field.\<close>

definition full_obs :: "(byte, unit) CObservation2DRangeScan" where
  "full_obs =
     \<lparr>scan = [0x3F800000, 0x40000000], intensity = [0x41200000, 0x41A00000],
      validRange = [1, 0], aperture = 0x40000000, rightToLeft = False,
      maxRange = 0x41F00000, sensorPose = 3, stdError = 0x3D4CCCCD,
      beamAperture = 0x3C23D70A, deltaPitch = 0x3FB999999999999A,
      timestamp = 0x0123456789ABCDEF, sensorLabel = [0x4C, 0x31], m_cachedMap = None\<rparr>"

text \<open>Scans of five and of two rays of 1.0 over an aperture of 2.0 radians.\<close>

definition scan_5_rays :: "(byte, unit) CObservation2DRangeScan" where
  "scan_5_rays = (constructed 0 0)
     \<lparr>scan := [0x3F800000, 0x3F800000, 0x3F800000, 0x3F800000, 0x3F800000],
      validRange := [1, 1, 1, 1, 1], aperture := 0x40000000\<rparr>"

definition scan_2_rays :: "(byte, unit) CObservation2DRangeScan" where
  "scan_2_rays = (constructed 0 0)
     \<lparr>scan := [0x3F800000, 0x3F800000], validRange := [1, 1], aperture := 0x40000000\<rparr>"

text \<open>An object whose \<open>validRange\<close> is longer than its \<open>scan\<close>.\<close>

definition mismatched :: "(byte, unit) CObservation2DRangeScan" where
  "mismatched = (constructed 0 0)
     \<lparr>scan := [0x3F800000], validRange := [1, 1], aperture := 0x40000000\<rparr>"

section \<open>Properties of the codec\<close>

subsection \<open>What every step of a decode keeps, and how it can fail\<close>

text \<open>
  \<open>step_ok E P f\<close>: started on an object that satisfies \<open>P\<close>, the step \<open>f\<close> ends on one
  that satisfies \<open>P\<close>, whether it returns or throws, and throws only errors in \<open>E\<close>.
\<close>

definition step_ok :: "(error \<Rightarrow> bool) \<Rightarrow> ('r \<Rightarrow> bool) \<Rightarrow> 'r step \<Rightarrow> bool" where
  "step_ok E P f =
     (\<forall>r s. P r \<longrightarrow>
        (\<forall>e r'. f (r, s) = Inl (e, r') \<longrightarrow> E e \<and> P r') \<and>
        (\<forall>r' s'. f (r, s) = Inr (r', s') \<longrightarrow> P r'))"

definition io_reader :: "(stream \<Rightarrow> error + 'a) \<Rightarrow> bool" where
  "io_reader rd = (\<forall>s e. rd s = Inl e \<longrightarrow> e = IOError)"

text \<open>\<open>wp f Q st\<close>: if \<open>f\<close> returns from \<open>st\<close>, the state it returns satisfies \<open>Q\<close>.\<close>

definition wp :: "'r step \<Rightarrow> ('r \<times> stream \<Rightarrow> bool) \<Rightarrow> 'r \<times> stream \<Rightarrow> bool" where
  "wp f Q st = (\<forall>st'. f st = Inr st' \<longrightarrow> Q st')"

lemma step_okI:
  assumes "\<And>r s e r'. P r \<Longrightarrow> f (r, s) = Inl (e, r') \<Longrightarrow> E e \<and> P r'"
    and "\<And>r s r' s'. P r \<Longrightarrow> f (r, s) = Inr (r', s') \<Longrightarrow> P r'"
  shows "step_ok E P f"
  using assms unfolding step_ok_def by blast

lemma step_ok_Inl: "step_ok E P f \<Longrightarrow> P r \<Longrightarrow> f (r, s) = Inl (e, r') \<Longrightarrow> E e \<and> P r'"
  unfolding step_ok_def by blast

lemma step_ok_Inr: "step_ok E P f \<Longrightarrow> P r \<Longrightarrow> f (r, s) = Inr (r', s') \<Longrightarrow> P r'"
  unfolding step_ok_def by blast

lemma io_ReadBuffer: "io_reader (ReadBuffer n)"
  by (simp add: io_reader_def ReadBuffer_def)

lemma io_read_word: "io_reader (read_word n)"
  using io_ReadBuffer [of n]
  by (auto simp: io_reader_def read_word_def split: sum.splits)

lemma io_read_float: "io_reader read_float"
  and io_read_double: "io_reader read_double"
  and io_read_uint32: "io_reader read_uint32"
  and io_read_uint64: "io_reader read_uint64"
  by (simp_all add: read_float_def read_double_def read_uint32_def read_uint64_def io_read_word)

lemma io_read_bool: "io_reader read_bool"
  by (simp add: io_reader_def read_bool_def split: list.splits)

lemma io_read_string: "io_reader read_string"
  using io_read_uint32 io_ReadBuffer
  by (auto simp: io_reader_def read_string_def split: sum.splits)

lemma io_read_pose: "io_reader (read_pose X)"
  by (simp add: io_reader_def read_pose_def split: option.splits)

lemma io_ReadBufferFixEndianness: "io_reader (ReadBufferFixEndianness n)"
proof -
  have "ReadBufferFixEndianness n s = Inl e \<Longrightarrow> e = IOError" for s e
  proof (induction n arbitrary: s)
    case 0
    then show ?case by simp
  next
    case (Suc n)
    then show ?case
      using io_read_word [of 4, where ?'a = 32]
      by (auto simp: io_reader_def split: sum.splits)
  qed
  then show ?thesis by (simp add: io_reader_def)
qed

lemmas io_readers = io_ReadBuffer io_read_float io_read_double io_read_uint32 io_read_uint64
  io_read_bool io_read_string io_read_pose io_ReadBufferFixEndianness

lemma ok_read_into:
  assumes "io_reader rd \<or> (\<forall>e. E e)" and "E IOError" and "\<And>v r. P r \<Longrightarrow> P (upd v r)"
  shows "step_ok E P (read_into rd upd)"
  using assms
  by (intro step_okI) (auto simp: read_into_def io_reader_def split: sum.splits)

lemma ok_read_then:
  assumes "io_reader rd \<or> (\<forall>e. E e)" and "E IOError" and "\<And>v. step_ok E P (k v)"
  shows "step_ok E P (read_then rd k)"
proof (rule step_okI)
  fix r s e r'
  assume "P r" and "read_then rd k (r, s) = Inl (e, r')"
  with assms(1,2) step_ok_Inl [OF assms(3)] show "E e \<and> P r'"
    by (auto simp: read_then_def io_reader_def split: sum.splits)
next
  fix r s r' s'
  assume "P r" and "read_then rd k (r, s) = Inr (r', s')"
  with step_ok_Inr [OF assms(3)] show "P r'"
    by (auto simp: read_then_def split: sum.splits)
qed

lemma ok_discard: "E IOError \<Longrightarrow> step_ok E P (discard rd)"
  by (intro step_okI) (auto simp: discard_def split: option.splits)

lemma ok_assign: "(\<And>r. P r \<Longrightarrow> P (f r)) \<Longrightarrow> step_ok E P (assign f)"
  by (intro step_okI) (auto simp: assign_def)

lemma ok_skip: "step_ok E P skip"
  by (intro step_okI) (auto simp: skip_def)

lemma ok_if:
  "(b \<Longrightarrow> step_ok E P f) \<Longrightarrow> (\<not> b \<Longrightarrow> step_ok E P g) \<Longrightarrow> step_ok E P (if b then f else g)"
  by simp

lemma ok_steps_Nil: "step_ok E P (steps [])"
  by (intro step_okI) auto

lemma ok_steps_Cons:
  assumes f: "step_ok E P f" and fs: "step_ok E P (steps fs)"
  shows "step_ok E P (steps (f # fs))"
proof (rule step_okI)
  fix r s e r'
  assume P: "P r" and res: "steps (f # fs) (r, s) = Inl (e, r')"
  show "E e \<and> P r'"
  proof (cases "f (r, s)")
    case (Inl er)
    with res have "f (r, s) = Inl (e, r')" by simp
    then show ?thesis by (rule step_ok_Inl [OF f P])
  next
    case (Inr st)
    obtain r1 s1 where st: "st = (r1, s1)" by (cases st)
    have "P r1" using Inr st by (intro step_ok_Inr [OF f P, of s r1 s1]) simp
    moreover have "steps fs (r1, s1) = Inl (e, r')" using res Inr st by simp
    ultimately show ?thesis by (rule step_ok_Inl [OF fs])
  qed
next
  fix r s r' s'
  assume P: "P r" and res: "steps (f # fs) (r, s) = Inr (r', s')"
  show "P r'"
  proof (cases "f (r, s)")
    case (Inl er)
    with res show ?thesis by simp
  next
    case (Inr st)
    obtain r1 s1 where st: "st = (r1, s1)" by (cases st)
    have "P r1" using Inr st by (intro step_ok_Inr [OF f P, of s r1 s1]) simp
    moreover have "steps fs (r1, s1) = Inr (r', s')" using res Inr st by simp
    ultimately show ?thesis by (rule step_ok_Inr [OF fs])
  qed
qed

lemmas ok_rules = ok_steps_Cons ok_steps_Nil ok_if ok_skip ok_assign ok_discard ok_read_then
  ok_read_into

lemma read_v0_3_errors: "step_ok (\<lambda>e. e = IOError) (\<lambda>r. True) (read_v0_3 X version)"
  unfolding read_v0_3_def
  by (intro ok_rules disjI1 io_readers) simp_all

lemma read_v4_7_errors: "step_ok (\<lambda>e. e = IOError) (\<lambda>r. True) (read_v4_7 X version)"
  unfolding read_v4_7_def
  by (intro ok_rules disjI1 io_readers) simp_all

lemma read_v0_3_timestamp:
  "version < 3 \<Longrightarrow> step_ok (\<lambda>e. True) (\<lambda>r. timestamp r = t) (read_v0_3 X version)"
  unfolding read_v0_3_def
  by (intro ok_rules disjI2) simp_all

lemma readFromStream_errors:
  assumes res: "readFromStream X s version r = Inl (e, r')"
    and v: "0 \<le> version" "version \<le> 7"
  shows "e = IOError"
proof -
  have a: "step_ok (\<lambda>e. e = IOError) (\<lambda>r. True)
             (steps [read_v0_3 X version, assign (\<lambda>r. r\<lparr>m_cachedMap := None\<rparr>)])"
    by (intro ok_rules read_v0_3_errors) simp
  have b: "step_ok (\<lambda>e. e = IOError) (\<lambda>r. True)
             (steps [read_v4_7 X version, assign (\<lambda>r. r\<lparr>m_cachedMap := None\<rparr>)])"
    by (intro ok_rules read_v4_7_errors) simp
  from v consider "version = 0 \<or> version = 1 \<or> version = 2 \<or> version = 3"
    | "version = 4 \<or> version = 5 \<or> version = 6 \<or> version = 7" by arith
  then show ?thesis
  proof cases
    case 1
    with res have "steps [read_v0_3 X version, assign (\<lambda>r. r\<lparr>m_cachedMap := None\<rparr>)] (r, s)
        = Inl (e, r')"
      by (simp add: readFromStream_def)
    from step_ok_Inl [OF a _ this] show ?thesis by simp
  next
    case 2
    with res have "steps [read_v4_7 X version, assign (\<lambda>r. r\<lparr>m_cachedMap := None\<rparr>)] (r, s)
        = Inl (e, r')"
      by (auto simp add: readFromStream_def)
    from step_ok_Inl [OF b _ this] show ?thesis by simp
  qed
qed

subsection \<open>Decoding the concrete streams\<close>

lemma ReadBufferFixEndianness_numeral:
  "ReadBufferFixEndianness (numeral k) s = ReadBufferFixEndianness (Suc (pred_numeral k)) s"
  by (simp only: numeral_eq_Suc)

lemma upt_0_2: "[0..<2] = [0, Suc 0]"
  by (simp add: numeral_2_eq_2)

lemma float_lt_1_80: "float_lt 0x3F800000 0x42A00000"
  by (simp add: float_lt_def isnan_def float_val_def Let_def)

lemma float_lt_100_80: "\<not> float_lt 0x42C80000 0x42A00000"
  by (simp add: float_lt_def isnan_def float_val_def Let_def)

lemmas decode_defs = readFromStream_def read_v0_3_def read_v4_7_def read_into_def read_then_def
  discard_def assign_def skip_def read_float_def read_double_def read_uint32_def read_uint64_def
  read_bool_def read_string_def read_word_def ReadBuffer_def read_pose_def resize_def
  byte_serializers_def constructed_def ReadBufferFixEndianness_numeral

lemma decode_stream_v0:
  "readFromStream byte_serializers stream_v0 0 (constructed 0 5 :: (byte, unit) CObservation2DRangeScan) =
     Inr (\<lparr>scan = [0x3F800000, 0x42C80000], intensity = [], validRange = [1, 0],
           aperture = 0x3F800000, rightToLeft = True, maxRange = 0x42A00000, sensorPose = 7,
           stdError = float_0_01, beamAperture = DEG2RAD_0_25, deltaPitch = 0, timestamp = 5,
           sensorLabel = [], m_cachedMap = None\<rparr>, [])"
  by (simp add: decode_defs stream_v0_def float_lt_1_80 float_lt_100_80 upt_0_2)

lemma decode_stream_v4:
  "readFromStream byte_serializers stream_v4 4 (constructed 0 5 :: (byte, unit) CObservation2DRangeScan) =
     Inr (\<lparr>scan = [0x3F800000], intensity = [], validRange = [1],
           aperture = 0x3F800000, rightToLeft = True, maxRange = 0x42A00000, sensorPose = 7,
           stdError = 0x3C23D70A, beamAperture = 0, deltaPitch = 0, timestamp = 9,
           sensorLabel = [], m_cachedMap = None\<rparr>, [])"
  by (simp add: decode_defs stream_v4_def)

lemma decode_stream_v4_used:
  "readFromStream byte_serializers stream_v4 4 used_obs =
     Inr (\<lparr>scan = [0x3F800000], intensity = [7, 8], validRange = [1],
           aperture = 0x3F800000, rightToLeft = True, maxRange = 0x42A00000, sensorPose = 7,
           stdError = 0x3C23D70A, beamAperture = 0, deltaPitch = 0, timestamp = 9,
           sensorLabel = [], m_cachedMap = None\<rparr>, [])"
  by (simp add: decode_defs stream_v4_def used_obs_def)

lemma decode_stream_v7_used:
  "readFromStream byte_serializers stream_v7 7 used_obs =
     Inr (\<lparr>scan = [0x3F800000], intensity = [7, 8], validRange = [1],
           aperture = 0x3F800000, rightToLeft = True, maxRange = 0x42A00000, sensorPose = 7,
           stdError = 0x3C23D70A, beamAperture = 0, deltaPitch = 0, timestamp = 9,
           sensorLabel = [], m_cachedMap = None\<rparr>, [])"
  by (simp add: decode_defs stream_v7_def used_obs_def)

subsection \<open>Unknown versions\<close>

text \<open>
  Claim C7. \<^verbatim>\<open>readFromStream\<close> fails with \<open>UnknownVersion\<close> exactly when the version lies
  outside 0..7, whatever the stream holds: inside that range the only error is the I/O
  error of the stream. On that failure nothing has been assigned: the error comes with
  the object as it was, its cached map included.
\<close>

theorem unknown_version:
  "((\<exists>r'. readFromStream X s version r = Inl (UnknownVersion, r')) \<longleftrightarrow>
      (version < 0 \<or> 7 < version)) \<and>
   (version < 0 \<or> 7 < version \<longrightarrow> readFromStream X s version r = Inl (UnknownVersion, r))"
proof -
  have out: "readFromStream X s version r = Inl (UnknownVersion, r)"
    if "version < 0 \<or> 7 < version"
    using that by (auto simp: readFromStream_def)
  have inn: "version < 0 \<or> 7 < version"
    if "readFromStream X s version r = Inl (UnknownVersion, r')" for r'
  proof (rule ccontr)
    assume "\<not> (version < 0 \<or> 7 < version)"
    then have "0 \<le> version" "version \<le> 7" by simp_all
    from readFromStream_errors [OF that this] show False by simp
  qed
  from out inn show ?thesis by blast
qed

theorem unknown_version_witness:
  "readFromStream byte_serializers stream_v0 8 (constructed 0 5 :: (byte, unit) CObservation2DRangeScan) =
     Inl (UnknownVersion, constructed 0 5) \<and>
   readFromStream byte_serializers stream_v0 (- 1) (constructed 0 5 :: (byte, unit) CObservation2DRangeScan) =
     Inl (UnknownVersion, constructed 0 5) \<and>
   \<not> (\<exists>r'. readFromStream byte_serializers stream_v0 0
              (constructed 0 5 :: (byte, unit) CObservation2DRangeScan) = Inl (UnknownVersion, r'))"
  using unknown_version [of byte_serializers stream_v0 8
      "constructed 0 5 :: (byte, unit) CObservation2DRangeScan"]
    unknown_version [of byte_serializers stream_v0 "- 1"
      "constructed 0 5 :: (byte, unit) CObservation2DRangeScan"]
    unknown_version [of byte_serializers stream_v0 0
      "constructed 0 5 :: (byte, unit) CObservation2DRangeScan"]
  by simp

subsection \<open>The timestamp of the old layouts\<close>

text \<open>
  Claim C10. A decode of version 0, 1 or 2 reads no timestamp and assigns none: the
  timestamp the object held before is the one it holds afterwards, when the decode
  returns and also when the stream fails under it.
\<close>

theorem timestamp_kept:
  assumes "version = 0 \<or> version = 1 \<or> version = 2"
  shows "(\<forall>r' s'. readFromStream X s version r = Inr (r', s') \<longrightarrow> timestamp r' = timestamp r) \<and>
         (\<forall>e r'. readFromStream X s version r = Inl (e, r') \<longrightarrow> timestamp r' = timestamp r)"
proof -
  from assms have v: "version < 3" by auto
  have a: "step_ok (\<lambda>e. True) (\<lambda>q. timestamp q = timestamp r)
             (steps [read_v0_3 X version, assign (\<lambda>r. r\<lparr>m_cachedMap := None\<rparr>)])"
    by (intro ok_rules read_v0_3_timestamp v) simp
  have eq: "readFromStream X s version r =
      steps [read_v0_3 X version, assign (\<lambda>r. r\<lparr>m_cachedMap := None\<rparr>)] (r, s)"
    using assms by (auto simp: readFromStream_def)
  have "timestamp r' = timestamp r" if "readFromStream X s version r = Inr (r', s')" for r' s'
    using that unfolding eq by (rule step_ok_Inr [OF a refl])
  moreover have "timestamp r' = timestamp r"
    if "readFromStream X s version r = Inl (e, r')" for e r'
    using step_ok_Inl [OF a refl that [unfolded eq]] by simp
  ultimately show ?thesis by blast
qed

theorem timestamp_kept_witness:
  "\<exists>r'. readFromStream byte_serializers stream_v0 0
          (constructed 0 5 :: (byte, unit) CObservation2DRangeScan) = Inr (r', []) \<and>
        timestamp r' = 5 \<and> timestamp (constructed 0 5 :: (byte, unit) CObservation2DRangeScan) = 5"
  using timestamp_kept [of 0 byte_serializers stream_v0
      "constructed 0 5 :: (byte, unit) CObservation2DRangeScan"] decode_stream_v0
  by (simp add: constructed_def)

subsection \<open>What a decode that returns has established\<close>

lemma wp_steps_Nil: "wp (steps []) Q st = Q st"
  by (simp add: wp_def)

lemma wp_steps_Cons: "wp (steps (f # fs)) Q st = wp f (wp (steps fs) Q) st"
  by (cases "f st") (simp_all add: wp_def)

lemma wp_assign: "wp (assign f) Q (r, s) = Q (f r, s)"
  by (simp add: wp_def assign_def)

lemma wp_skip: "wp skip Q st = Q st"
  by (simp add: wp_def skip_def)

lemma wp_discard: "wp (discard rd) Q (r, s) = (\<forall>s'. rd s = Some s' \<longrightarrow> Q (r, s'))"
  by (cases "rd s") (simp_all add: wp_def discard_def)

lemma wp_read_into:
  "wp (read_into rd upd) Q (r, s) = (\<forall>v s'. rd s = Inr (v, s') \<longrightarrow> Q (upd v r, s'))"
  by (cases "rd s") (auto simp add: wp_def read_into_def)

lemma wp_read_then:
  "wp (read_then rd k) Q (r, s) = (\<forall>v s'. rd s = Inr (v, s') \<longrightarrow> wp (k v) Q (r, s'))"
  by (cases "rd s") (auto simp add: wp_def read_then_def)

lemma wp_if: "wp (if b then f else g) Q st = (if b then wp f Q st else wp g Q st)"
  by simp

lemmas wp_simps = wp_steps_Nil wp_steps_Cons wp_assign wp_skip wp_discard wp_read_into
  wp_read_then wp_if

lemma wpD: "wp f Q st \<Longrightarrow> f st = Inr st' \<Longrightarrow> Q st'"
  by (simp add: wp_def)

lemma length_ReadBufferFixEndianness:
  "ReadBufferFixEndianness n s = Inr (ws, s') \<Longrightarrow> length ws = n"
  by (induction n arbitrary: s ws) (auto split: sum.splits)

lemma length_ReadBuffer: "ReadBuffer n s = Inr (bs, s') \<Longrightarrow> length bs = n"
  by (auto simp: ReadBuffer_def split: if_splits)

lemma length_resize [simp]: "length (resize n xs) = n"
  by (simp add: resize_def)

lemma read_v0_post:
  "wp (read_v0_3 X 0)
     (\<lambda>(q, t). length (validRange q) = length (scan q) \<and>
        (\<forall>i<length (scan q).
           validRange q ! i = (if float_lt (scan q ! i) (maxRange q) then 1 else 0)) \<and>
        stdError q = float_0_01 \<and> beamAperture q = DEG2RAD_0_25 \<and> deltaPitch q = 0 \<and>
        sensorLabel q = []) (r, s)"
  unfolding read_v0_3_def
  by (auto simp add: wp_simps dest: length_ReadBufferFixEndianness)

lemma read_v4_post:
  "wp (read_v4_7 X 4) (\<lambda>(q, t). sensorLabel q = [] \<and> deltaPitch q = 0) (r, s)"
  unfolding read_v4_7_def
  by (simp add: wp_simps)

lemma readFromStream_0_3:
  "version = 0 \<or> version = 1 \<or> version = 2 \<or> version = 3 \<Longrightarrow>
   readFromStream X s version r = Inr (r', s') \<Longrightarrow>
   \<exists>q. read_v0_3 X version (r, s) = Inr (q, s') \<and> r' = q\<lparr>m_cachedMap := None\<rparr>"
  by (auto simp: readFromStream_def assign_def split: sum.splits)

lemma readFromStream_4_7:
  "version = 4 \<or> version = 5 \<or> version = 6 \<or> version = 7 \<Longrightarrow>
   readFromStream X s version r = Inr (r', s') \<Longrightarrow>
   \<exists>q. read_v4_7 X version (r, s) = Inr (q, s') \<and> r' = q\<lparr>m_cachedMap := None\<rparr>"
  by (auto simp: readFromStream_def assign_def split: sum.splits)

text \<open>
  Claim C5. A version-0 decode that returns has \<open>validRange\<close> as long as \<open>scan\<close>, entry
  \<open>i\<close> being 1 when \<open>scan[i] < maxRange\<close> and 0 when not, \<open>stdError\<close> the float 0.01,
  \<open>beamAperture\<close> the float of 0.25 degrees in radians, \<open>deltaPitch\<close> 0 and an empty
  \<open>sensorLabel\<close>. A version-4 decode that returns has an empty \<open>sensorLabel\<close> and
  \<open>deltaPitch\<close> 0.
\<close>

theorem default_filling:
  "(\<forall>r' s'. readFromStream X s 0 r = Inr (r', s') \<longrightarrow>
      length (validRange r') = length (scan r') \<and>
      (\<forall>i<length (scan r').
         validRange r' ! i = (if float_lt (scan r' ! i) (maxRange r') then 1 else 0)) \<and>
      stdError r' = float_0_01 \<and> beamAperture r' = DEG2RAD_0_25 \<and> deltaPitch r' = 0 \<and>
      sensorLabel r' = []) \<and>
   (\<forall>r' s'. readFromStream X s 4 r = Inr (r', s') \<longrightarrow> sensorLabel r' = [] \<and> deltaPitch r' = 0)"
proof -
  have v0: "length (validRange r') = length (scan r') \<and>
      (\<forall>i<length (scan r').
         validRange r' ! i = (if float_lt (scan r' ! i) (maxRange r') then 1 else 0)) \<and>
      stdError r' = float_0_01 \<and> beamAperture r' = DEG2RAD_0_25 \<and> deltaPitch r' = 0 \<and>
      sensorLabel r' = []"
    if res: "readFromStream X s 0 r = Inr (r', s')" for r' s'
  proof -
    from readFromStream_0_3 [OF _ res] obtain q
      where q: "read_v0_3 X 0 (r, s) = Inr (q, s')" and r': "r' = q\<lparr>m_cachedMap := None\<rparr>"
      by auto
    from wpD [OF read_v0_post q] show ?thesis
      by (simp add: r')
  qed
  have v4: "sensorLabel r' = [] \<and> deltaPitch r' = 0"
    if res: "readFromStream X s 4 r = Inr (r', s')" for r' s'
  proof -
    from readFromStream_4_7 [OF _ res] obtain q
      where q: "read_v4_7 X 4 (r, s) = Inr (q, s')" and r': "r' = q\<lparr>m_cachedMap := None\<rparr>"
      by auto
    from wpD [OF read_v4_post q] show ?thesis
      by (simp add: r')
  qed
  from v0 v4 show ?thesis by blast
qed

theorem default_filling_witness:
  "(\<exists>r'. readFromStream byte_serializers stream_v0 0
          (constructed 0 5 :: (byte, unit) CObservation2DRangeScan) = Inr (r', []) \<and>
         scan r' = [0x3F800000, 0x42C80000] \<and> maxRange r' = 0x42A00000 \<and>
         validRange r' = [1, 0] \<and> stdError r' = float_0_01 \<and>
         beamAperture r' = DEG2RAD_0_25 \<and> deltaPitch r' = 0 \<and> sensorLabel r' = []) \<and>
   (\<exists>r'. readFromStream byte_serializers stream_v4 4
          (constructed 0 5 :: (byte, unit) CObservation2DRangeScan) = Inr (r', []) \<and>
         sensorLabel r' = [] \<and> deltaPitch r' = 0)"
  using default_filling [of byte_serializers stream_v0
      "constructed 0 5 :: (byte, unit) CObservation2DRangeScan"]
    default_filling [of byte_serializers stream_v4
      "constructed 0 5 :: (byte, unit) CObservation2DRangeScan"]
    decode_stream_v0 decode_stream_v4
  by simp

subsection \<open>Writing and reading back\<close>

lemma length_le_bytes [simp]: "length (le_bytes n w) = n"
  by (induction n arbitrary: w) simp_all

lemma le_word_le_bytes: "le_word (le_bytes n w) = take_bit (8 * n) w"
proof (induction n arbitrary: w)
  case 0
  show ?case by simp
next
  case (Suc n)
  show ?case
    apply (simp add: Suc)
    apply (rule bit_word_eqI)
    apply (auto simp add: bit_simps)
    done
qed

lemma ReadBuffer_append: "ReadBuffer (length bs) (bs @ t) = Inr (bs, t)"
  by (simp add: ReadBuffer_def)

lemma read_word_le_bytes:
  "LENGTH('a::len) \<le> 8 * n \<Longrightarrow> read_word n (le_bytes n (w :: 'a word) @ t) = Inr (w, t)"
  using ReadBuffer_append [of "le_bytes n w" t]
  by (simp add: read_word_def le_word_le_bytes take_bit_word_eq_self)

lemma read_write_float: "read_float (write_float w @ t) = Inr (w, t)"
  by (simp add: read_float_def write_float_def read_word_le_bytes)

lemma read_write_double: "read_double (write_double w @ t) = Inr (w, t)"
  by (simp add: read_double_def write_double_def read_word_le_bytes)

lemma read_write_uint32: "read_uint32 (write_uint32 w @ t) = Inr (w, t)"
  by (simp add: read_uint32_def write_uint32_def read_word_le_bytes)

lemma read_write_uint64: "read_uint64 (write_uint64 w @ t) = Inr (w, t)"
  by (simp add: read_uint64_def write_uint64_def read_word_le_bytes)

lemma read_write_bool: "read_bool (write_bool b @ t) = Inr (b, t)"
  by (simp add: read_bool_def write_bool_def)

lemma unat_count: "n < 2 ^ 32 \<Longrightarrow> unat (word_of_nat n :: 32 word) = n"
  by (simp add: unat_of_nat)

lemma read_write_string:
  "length str < 2 ^ 32 \<Longrightarrow> read_string (write_string str @ t) = Inr (str, t)"
  using ReadBuffer_append [of str t]
  by (simp add: read_string_def write_string_def read_write_uint32 unat_count WriteBuffer_def)

lemma read_write_words:
  "ReadBufferFixEndianness (length ws) (WriteBufferFixEndianness ws @ t) = Inr (ws, t)"
  by (induction ws) (simp_all add: WriteBufferFixEndianness_def read_word_le_bytes)

text \<open>
  Claim C1. Let \<open>x\<close> be an object with \<open>validRange\<close> and \<open>intensity\<close> as long as \<open>scan\<close>
  and \<open>intensity\<close> not empty, whatever the values of its fields. Then \<^verbatim>\<open>writeToStream\<close>
  returns bytes, under the version 7 it announces, and \<^verbatim>\<open>readFromStream\<close> of these bytes
  at version 7, into any object \<open>r0\<close>, returns \<open>x\<close>: every field of the result is the
  field of \<open>x\<close>, bit for bit, the cached map is cleared, and the stream is left at the
  byte after the record. The serialisation of the pose is outside this class and is
  assumed to read back what it wrote; the number of rays and the length of the label
  fit the 32-bit counts of the layout.
\<close>

theorem roundtrip_v7:
  assumes pose: "\<forall>p t. readPose X (writePose X p @ t) = Some (p, t)"
    and valid: "length (validRange x) = length (scan x)"
    and inten: "intensity x \<noteq> []" "length (intensity x) = length (scan x)"
    and count: "length (scan x) < 2 ^ 32"
    and label: "length (sensorLabel x) < 2 ^ 32"
  shows "\<exists>bytes. writeToStream X x = Inr bytes \<and>
           readFromStream X (bytes @ rest) writeToStream_version r0 =
             Inr (x\<lparr>m_cachedMap := None\<rparr>, rest)"
proof -
  let ?n = "length (scan x)"
  let ?N = "word_of_nat ?n :: 32 word"
  have n: "unat ?N = ?n" using count by (rule unat_count)
  have pos: "0 < ?n" using inten by (cases "intensity x") auto
  have N0: "?N \<noteq> 0" using n pos by (metis unat_0 less_numeral_extra(3))
  have rp: "read_pose X (writePose X p @ t) = Inr (p, t)" for p t
    using pose by (simp add: read_pose_def)
  let ?bytes = "write_float (aperture x) @ write_bool (rightToLeft x) @
      write_float (maxRange x) @ writePose X (sensorPose x) @ write_uint32 ?N @
      WriteBufferFixEndianness (scan x) @ WriteBuffer (validRange x) @
      write_float (stdError x) @ write_uint64 (timestamp x) @
      write_float (beamAperture x) @ write_string (sensorLabel x) @
      write_double (deltaPitch x) @ write_bool True @ WriteBufferFixEndianness (intensity x)"
  have wr: "writeToStream X x = Inr ?bytes"
    using valid inten N0 by (simp add: writeToStream_def Let_def n)
  have rs: "ReadBufferFixEndianness ?n (WriteBufferFixEndianness (scan x) @ t) = Inr (scan x, t)"
    for t
    by (rule read_write_words)
  have ri: "ReadBufferFixEndianness ?n (WriteBufferFixEndianness (intensity x) @ t)
      = Inr (intensity x, t)" for t
    using read_write_words [of "intensity x" t] inten by simp
  have rv: "ReadBuffer ?n (WriteBuffer (validRange x) @ t) = Inr (validRange x, t)" for t
    using ReadBuffer_append [of "validRange x" t] valid by (simp add: WriteBuffer_def)
  have rd: "readFromStream X (?bytes @ rest) 7 r0 = Inr (x\<lparr>m_cachedMap := None\<rparr>, rest)"
    using N0 label
    by (simp add: readFromStream_def read_v4_7_def read_into_def read_then_def assign_def skip_def
        read_write_float read_write_bool rp read_write_uint32 n rs rv ri read_write_uint64
        read_write_string read_write_double)
  from wr rd show ?thesis by (simp add: writeToStream_version_def)
qed

theorem roundtrip_v7_witness:
  "\<exists>bytes. writeToStream byte_serializers full_obs = Inr bytes \<and>
     readFromStream byte_serializers (bytes @ [0xAA]) writeToStream_version used_obs =
       Inr (full_obs, [0xAA])"
proof -
  have pose: "\<forall>p t. readPose byte_serializers (writePose byte_serializers p @ t) = Some (p, t)"
    by (simp add: byte_serializers_def)
  have full: "full_obs\<lparr>m_cachedMap := None\<rparr> = full_obs"
    by (simp add: full_obs_def)
  from roundtrip_v7 [OF pose, of full_obs "[0xAA]" used_obs] show ?thesis
    by (simp add: full) (simp add: full_obs_def)
qed

subsection \<open>Intensities that survive a decode\<close>

text \<open>
  Claim C4, at an object that holds intensities before the decode: \<open>used_obs\<close> has two.
  The version-4 stream has no intensity flag, the version-7 stream has the flag false;
  both decodes return, and the object still holds the two intensities.
\<close>

theorem stale_intensity_survives:
  "(\<exists>r'. readFromStream byte_serializers stream_v4 4 used_obs = Inr (r', []) \<and>
         intensity r' = [7, 8]) \<and>
   (\<exists>r'. readFromStream byte_serializers stream_v7 7 used_obs = Inr (r', []) \<and>
         intensity r' = [7, 8])"
  by (simp add: decode_stream_v4_used decode_stream_v7_used)

text \<open>
  Claim C8, at the same object: before the decode \<open>scan\<close>, \<open>validRange\<close> and \<open>intensity\<close>
  all have two entries; after the decode of the one-ray version-4 stream \<open>scan\<close> and
  \<open>validRange\<close> have one entry and \<open>intensity\<close>, not empty, still has two.
\<close>

theorem decode_breaks_intensity_size:
  "length (validRange used_obs) = length (scan used_obs) \<and>
   length (intensity used_obs) = length (scan used_obs) \<and>
   (\<exists>r'. readFromStream byte_serializers stream_v4 4 used_obs = Inr (r', []) \<and>
         length (scan r') = 1 \<and> length (validRange r') = 1 \<and> length (intensity r') = 2)"
  by (simp add: decode_stream_v4_used) (simp add: used_obs_def constructed_def)

section \<open>Properties of the exclusion filters\<close>

subsection \<open>The runs that an angle pair invalidates\<close>

lemma invalidate_in_range:
  "i + n \<le> length v \<Longrightarrow>
     \<exists>v'. invalidate i n v = Inr v' \<and> length v' = length v \<and>
          (\<forall>j<length v. v' ! j = (if i \<le> j \<and> j < i + n then 0 else v ! j))"
proof (induction n arbitrary: i v)
  case 0
  then show ?case by auto
next
  case (Suc n)
  from Suc.prems have i: "i < length v" and le: "Suc i + n \<le> length (v[i := 0])" by simp_all
  from Suc.IH [OF le] obtain v' where v': "invalidate (Suc i) n (v[i := 0]) = Inr v'"
    "length v' = length v"
    "\<forall>j<length v. v' ! j = (if Suc i \<le> j \<and> j < Suc i + n then 0 else v[i := 0] ! j)"
    by auto
  have "v' ! j = (if i \<le> j \<and> j < i + Suc n then 0 else v ! j)" if "j < length v" for j
    using v'(3) that i by (cases "j = i") auto
  with v'(1,2) i show ?case by simp
qed

lemma exclude_range_in_range:
  assumes "idx_ini < length v" and "idx_end < length v"
  shows "\<exists>v'. exclude_range (length v) idx_ini idx_end v = Inr v' \<and> length v' = length v \<and>
           (\<forall>j<length v. v' ! j =
              (if (if idx_end \<ge> idx_ini then idx_ini \<le> j \<and> j \<le> idx_end
                   else j < idx_end \<or> idx_ini \<le> j)
               then 0 else v ! j))"
proof (cases "idx_end \<ge> idx_ini")
  case True
  with assms have "idx_ini + (idx_end + 1 - idx_ini) \<le> length v" by simp
  from invalidate_in_range [OF this] True show ?thesis
    by (auto simp: exclude_range_def)
next
  case False
  from assms have "0 + idx_end \<le> length v" by simp
  from invalidate_in_range [OF this] obtain v1 where v1: "invalidate 0 idx_end v = Inr v1"
    "length v1 = length v" "\<forall>j<length v. v1 ! j = (if j < idx_end then 0 else v ! j)"
    by auto
  from assms v1(2) have "idx_ini + (length v - idx_ini) \<le> length v1" by simp
  from invalidate_in_range [OF this] obtain v2
    where v2: "invalidate idx_ini (length v - idx_ini) v1 = Inr v2"
    "length v2 = length v1"
    "\<forall>j<length v1. v2 ! j =
       (if idx_ini \<le> j \<and> j < idx_ini + (length v - idx_ini) then 0 else v1 ! j)"
    by auto
  have "v2 ! j = (if j < idx_end \<or> idx_ini \<le> j then 0 else v ! j)" if "j < length v" for j
    using v2(3) v1(2,3) that by auto
  with v1 v2 False show ?thesis
    by (simp add: exclude_range_def)
qed

lemma float_val_2: "float_val 0x40000000 = 2"
  by (simp add: float_val_def Let_def)

lemma float_val_1: "float_val 0x3F800000 = 1"
  by (simp add: float_val_def Let_def)

lemma float_val_half: "float_val 0x3F000000 = 1 / 2"
  by (simp add: float_val_def Let_def)

lemma float_val_0: "float_val 0 = 0"
  by (simp add: float_val_def Let_def)

lemma wrapTo2Pi_small:
  assumes "0 \<le> a" and "a < 4"
  shows "wrapTo2Pi a = a"
proof -
  have "a < 2 * pi" using assms pi_ge_two by linarith
  then have "\<lfloor>a / (2 * pi)\<rfloor> = 0" using assms by (simp add: floor_eq_iff)
  then show ?thesis by (simp add: wrapTo2Pi_def)
qed

lemma ap_idx_1: "ap_idx scan_5_rays (- (1 / 2)) = Inr 1"
proof -
  have w: "wrapTo2Pi (1 / 2) = 1 / 2" by (rule wrapTo2Pi_small) simp_all
  show ?thesis
    by (simp add: ap_idx_def scan_5_rays_def constructed_def sweep_Ang_def sweep_dA_def
        float_val_2 w double_to_int_def)
qed

lemma ap_idx_3: "ap_idx scan_5_rays (1 / 2) = Inr 3"
proof -
  have w: "wrapTo2Pi (3 / 2) = 3 / 2" by (rule wrapTo2Pi_small) simp_all
  show ?thesis
    by (simp add: ap_idx_def scan_5_rays_def constructed_def sweep_Ang_def sweep_dA_def
        float_val_2 w double_to_int_def)
qed

lemma ap_idx_5: "ap_idx scan_5_rays (3 / 2) = Inr 5"
proof -
  have w: "wrapTo2Pi (5 / 2) = 5 / 2" by (rule wrapTo2Pi_small) simp_all
  show ?thesis
    by (simp add: ap_idx_def scan_5_rays_def constructed_def sweep_Ang_def sweep_dA_def
        float_val_2 w double_to_int_def)
qed

lemma exclude_pair_in_range:
  assumes "ap_idx r (fst a) = Inr ap_idx_ini" and "ap_idx r (snd a) = Inr ap_idx_end"
    and "idx_ini = size_of_int (clamp_idx (length (scan r)) ap_idx_ini)"
    and "idx_end = size_of_int (clamp_idx (length (scan r)) ap_idx_end)"
    and "length v = length (scan r)"
    and "idx_ini < length v" and "idx_end < length v"
  shows "\<exists>v'. exclude_pair r a v = Inr v' \<and> length v' = length v \<and>
           (\<forall>j<length v. v' ! j =
              (if (if idx_end \<ge> idx_ini then idx_ini \<le> j \<and> j \<le> idx_end
                   else j < idx_end \<or> idx_ini \<le> j)
               then 0 else v ! j))"
proof -
  have "exclude_pair r a v = exclude_range (length v) idx_ini idx_end v"
    using assms(1-5) by (simp add: exclude_pair_def)
  with exclude_range_in_range [OF assms(6,7)] show ?thesis by simp
qed

text \<open>
  The indices of a pair depend on \<open>scan\<close>, \<open>aperture\<close> and \<open>rightToLeft\<close> only: the loop
  over the pairs computes the same indices whatever it has written to \<open>validRange\<close>.
\<close>

lemma ap_idx_validRange: "ap_idx (r\<lparr>validRange := w\<rparr>) x = ap_idx r x"
  by (simp add: ap_idx_def sweep_Ang_def sweep_dA_def)

lemma exclude_pair_validRange: "exclude_pair (r\<lparr>validRange := w\<rparr>) a v = exclude_pair r a v"
  by (simp add: exclude_pair_def ap_idx_validRange split: sum.splits)

lemma angles_loop_validRange: "angles_loop (r\<lparr>validRange := w\<rparr>) angles v = angles_loop r angles v"
  by (induction angles arbitrary: v) (simp_all add: exclude_pair_validRange split: sum.splits)

lemma exclude_pair_scan_5:
  "exclude_pair scan_5_rays (- (1 / 2), 1 / 2) [1, 1, 1, 1, 1] = Inr [1, 0, 0, 0, 1]"
  "exclude_pair scan_5_rays (1 / 2, - (1 / 2)) [1, 1, 1, 1, 1] = Inr [0, 1, 1, 0, 0]"
  "exclude_pair scan_5_rays (- (1 / 2), 1 / 2) [0, 1, 1, 0, 0] = Inr [0, 0, 0, 0, 0]"
proof -
  have len: "length (scan scan_5_rays) = 5"
    by (simp add: scan_5_rays_def constructed_def)
  have c: "size_of_int (clamp_idx 5 1) = 1" "size_of_int (clamp_idx 5 3) = 3"
    by (simp_all add: clamp_idx_def int_of_size_def size_of_int_def)
  have e: "exclude_range 5 (Suc 0) 3 [1, 1, 1, 1, 1] = Inr [1, 0, 0, 0, 1]"
    "exclude_range 5 3 (Suc 0) [1, 1, 1, 1, 1] = Inr [0, 1, 1, 0, 0]"
    "exclude_range 5 (Suc 0) 3 [0, 1, 1, 0, 0] = Inr [0, 0, 0, 0, 0]"
    by (simp_all add: exclude_range_def numeral_eq_Suc)
  show "exclude_pair scan_5_rays (- (1 / 2), 1 / 2) [1, 1, 1, 1, 1] = Inr [1, 0, 0, 0, 1]"
    "exclude_pair scan_5_rays (1 / 2, - (1 / 2)) [1, 1, 1, 1, 1] = Inr [0, 1, 1, 0, 0]"
    "exclude_pair scan_5_rays (- (1 / 2), 1 / 2) [0, 1, 1, 0, 0] = Inr [0, 0, 0, 0, 0]"
    by (simp_all add: exclude_pair_def ap_idx_1 ap_idx_3 len c e)
qed

text \<open>
  Claim C6. Let \<^verbatim>\<open>filterByExclusionAngles\<close> be called on an object whose \<open>validRange\<close>
  is as long as its \<open>scan\<close> (\<open>N\<close> rays), and take an angle pair of the call whose two
  indices, once bounded by the filter, are \<open>idx_ini\<close> and \<open>idx_end\<close>, both inside the
  array (below \<open>N\<close>). Called with this pair alone, the filter returns the object with a
  new \<open>validRange\<close> of the same size and with nothing else changed; the new array has
  false (0) at exactly the entries of the run and the old value everywhere else. The
  run is the positions \<open>idx_ini .. idx_end\<close>, both included, when \<open>idx_end >= idx_ini\<close>;
  the positions below \<open>idx_end\<close> (\<open>idx_end\<close> itself excluded) and those from \<open>idx_ini\<close>
  to \<open>N - 1\<close> when \<open>idx_end < idx_ini\<close>. Called with this pair followed by more pairs,
  the filter does what it does when called with the remaining pairs on the object that
  the first pair leaves: each pair of a call changes the entries of its own run and no
  other.
\<close>

theorem filterByExclusionAngles_runs:
  assumes "length (validRange r) = length (scan r)"
    and "ap_idx r (fst a) = Inr ap_idx_ini" and "ap_idx r (snd a) = Inr ap_idx_end"
    and "idx_ini = size_of_int (clamp_idx (length (scan r)) ap_idx_ini)"
    and "idx_end = size_of_int (clamp_idx (length (scan r)) ap_idx_end)"
    and "idx_ini < length (scan r)" and "idx_end < length (scan r)"
  shows "\<exists>v'. length v' = length (validRange r) \<and>
           (\<forall>j<length (validRange r). v' ! j =
              (if (if idx_end \<ge> idx_ini then idx_ini \<le> j \<and> j \<le> idx_end
                   else j < idx_end \<or> idx_ini \<le> j)
               then 0 else validRange r ! j)) \<and>
           filterByExclusionAngles [a] r = Inr (r\<lparr>validRange := v'\<rparr>) \<and>
           (angles \<noteq> [] \<longrightarrow>
              filterByExclusionAngles (a # angles) r =
                filterByExclusionAngles angles (r\<lparr>validRange := v'\<rparr>))"
proof -
  let ?v = "validRange r"
  have in_range: "idx_ini < length ?v" "idx_end < length ?v"
    using assms(1,6,7) by simp_all
  from exclude_pair_in_range [OF assms(2-5) assms(1) in_range]
  obtain v' where pair: "exclude_pair r a ?v = Inr v'"
    and len: "length v' = length ?v"
    and run: "\<forall>j<length ?v. v' ! j =
        (if (if idx_end \<ge> idx_ini then idx_ini \<le> j \<and> j \<le> idx_end
             else j < idx_end \<or> idx_ini \<le> j)
         then 0 else ?v ! j)"
    by blast
  have nonempty: "scan r \<noteq> []" using assms(6) by auto
  have one: "filterByExclusionAngles [a] r = Inr (r\<lparr>validRange := v'\<rparr>)"
    using assms(1) nonempty by (simp add: filterByExclusionAngles_def pair)
  have more: "filterByExclusionAngles (a # angles) r =
      filterByExclusionAngles angles (r\<lparr>validRange := v'\<rparr>)" if "angles \<noteq> []"
    using that assms(1) nonempty len
    by (simp add: filterByExclusionAngles_def pair angles_loop_validRange split: sum.splits)
  from len run one more show ?thesis by blast
qed

theorem filterByExclusionAngles_runs_witness:
  "filterByExclusionAngles [(- (1 / 2), 1 / 2)] scan_5_rays =
     Inr (scan_5_rays\<lparr>validRange := [1, 0, 0, 0, 1]\<rparr>) \<and>
   filterByExclusionAngles [(1 / 2, - (1 / 2))] scan_5_rays =
     Inr (scan_5_rays\<lparr>validRange := [0, 1, 1, 0, 0]\<rparr>) \<and>
   filterByExclusionAngles [(1 / 2, - (1 / 2)), (- (1 / 2), 1 / 2)] scan_5_rays =
     Inr (scan_5_rays\<lparr>validRange := [0, 0, 0, 0, 0]\<rparr>)"
proof -
  have len: "length (scan scan_5_rays) = 5" "validRange scan_5_rays = [1, 1, 1, 1, 1]"
    by (simp_all add: scan_5_rays_def constructed_def)
  have c: "size_of_int (clamp_idx 5 1) = 1" "size_of_int (clamp_idx 5 3) = 3"
    by (simp_all add: clamp_idx_def int_of_size_def size_of_int_def)
  have p1: "\<exists>v'. length v' = length (validRange scan_5_rays) \<and>
      (\<forall>j<length (validRange scan_5_rays). v' ! j =
         (if (if 3 \<ge> (1 :: nat) then 1 \<le> j \<and> j \<le> 3 else j < 3 \<or> 1 \<le> j)
          then 0 else validRange scan_5_rays ! j)) \<and>
      filterByExclusionAngles [(- (1 / 2), 1 / 2)] scan_5_rays =
        Inr (scan_5_rays\<lparr>validRange := v'\<rparr>) \<and>
      ([(1 / 2, - (1 / 2)) :: real \<times> real] \<noteq> [] \<longrightarrow>
         filterByExclusionAngles ((- (1 / 2), 1 / 2) # [(1 / 2, - (1 / 2))]) scan_5_rays =
           filterByExclusionAngles [(1 / 2, - (1 / 2))] (scan_5_rays\<lparr>validRange := v'\<rparr>))"
    by (rule filterByExclusionAngles_runs [where ap_idx_ini = 1 and ap_idx_end = 3])
      (simp_all add: ap_idx_1 ap_idx_3 len c)
  have p2: "\<exists>v'. length v' = length (validRange scan_5_rays) \<and>
      (\<forall>j<length (validRange scan_5_rays). v' ! j =
         (if (if 1 \<ge> (3 :: nat) then 3 \<le> j \<and> j \<le> 1 else j < 1 \<or> 3 \<le> j)
          then 0 else validRange scan_5_rays ! j)) \<and>
      filterByExclusionAngles [(1 / 2, - (1 / 2))] scan_5_rays =
        Inr (scan_5_rays\<lparr>validRange := v'\<rparr>) \<and>
      ([(- (1 / 2), 1 / 2) :: real \<times> real] \<noteq> [] \<longrightarrow>
         filterByExclusionAngles ((1 / 2, - (1 / 2)) # [(- (1 / 2), 1 / 2)]) scan_5_rays =
           filterByExclusionAngles [(- (1 / 2), 1 / 2)] (scan_5_rays\<lparr>validRange := v'\<rparr>))"
    by (rule filterByExclusionAngles_runs [where ap_idx_ini = 3 and ap_idx_end = 1])
      (simp_all add: ap_idx_1 ap_idx_3 len c)
  have ev: "filterByExclusionAngles [(- (1 / 2), 1 / 2)] scan_5_rays =
      Inr (scan_5_rays\<lparr>validRange := [1, 0, 0, 0, 1]\<rparr>)"
    "filterByExclusionAngles [(1 / 2, - (1 / 2))] scan_5_rays =
      Inr (scan_5_rays\<lparr>validRange := [0, 1, 1, 0, 0]\<rparr>)"
    "filterByExclusionAngles [(1 / 2, - (1 / 2)), (- (1 / 2), 1 / 2)] scan_5_rays =
      Inr (scan_5_rays\<lparr>validRange := [0, 0, 0, 0, 0]\<rparr>)"
    by (simp_all add: filterByExclusionAngles_def len exclude_pair_scan_5)
  from p1 p2 ev show ?thesis by simp
qed

subsection \<open>The size assertion of the filters\<close>

text \<open>
  Claim C9 as it is stated fails at \<open>mismatched\<close>, an object with one ray and a
  \<open>validRange\<close> of two entries: with an empty list of angles or of areas the two list
  filters return at once, before their assertion, and the truncation filter, which has
  no assertion on the sizes, runs through and returns.
\<close>

theorem filters_no_fail_fast:
  "scan mismatched \<noteq> [] \<and> length (scan mismatched) \<noteq> length (validRange mismatched) \<and>
   filterByExclusionAngles [] mismatched = Inr mismatched \<and>
   filterByExclusionAreas box_geometry [] mismatched = Inr mismatched \<and>
   filterByExclusionAreas_polygons box_geometry [] mismatched = Inr mismatched \<and>
   truncateByDistanceAndAngle 0 0x40000000 0 0 0 mismatched = Inr mismatched"
proof -
  have f: "\<not> float_lt 0x3F800000 0"
    by (simp add: float_lt_def float_val_def Let_def)
  have v: "float_val 0x40000000 = 2" "float_val 0 = 0"
    by (simp_all add: float_val_def Let_def)
  have t: "truncateByDistanceAndAngle 0 0x40000000 0 0 0 mismatched = Inr mismatched"
    by (simp add: truncateByDistanceAndAngle_def mismatched_def constructed_def Let_def
        truncate_ang_def above_float_def f v)
  show ?thesis
    by (simp add: t filterByExclusionAngles_def filterByExclusionAreas_def
        filterByExclusionAreas_polygons_def) (simp add: mismatched_def constructed_def)
qed

text \<open>
  Claim C9, amended. Called with a list that is not empty on an object whose \<open>scan\<close> and
  \<open>validRange\<close> differ in size, the angular-range filter and both forms of the polygon
  filter fail with the assertion and leave the object as it was. Called with an empty
  list they return the object at once, whatever its sizes.
\<close>

theorem filters_assert_sizes:
  assumes "length (scan r) \<noteq> length (validRange r)"
  shows "(angles \<noteq> [] \<longrightarrow> filterByExclusionAngles angles r = Inl (AssertionFailed, r)) \<and>
         (areas \<noteq> [] \<longrightarrow> filterByExclusionAreas G areas r = Inl (AssertionFailed, r)) \<and>
         (polys \<noteq> [] \<longrightarrow> filterByExclusionAreas_polygons G polys r = Inl (AssertionFailed, r)) \<and>
         filterByExclusionAngles [] r = Inr r \<and>
         filterByExclusionAreas G [] r = Inr r \<and>
         filterByExclusionAreas_polygons G [] r = Inr r"
  using assms
  by (simp add: filterByExclusionAngles_def filterByExclusionAreas_def
      filterByExclusionAreas_polygons_def)

theorem filters_assert_sizes_witness:
  "filterByExclusionAngles [(0, 1)] mismatched = Inl (AssertionFailed, mismatched) \<and>
   filterByExclusionAreas box_geometry [((0, 0, 1, 1), 0, 1)] mismatched =
     Inl (AssertionFailed, mismatched) \<and>
   filterByExclusionAreas_polygons box_geometry [(0, 0, 1, 1)] mismatched =
     Inl (AssertionFailed, mismatched) \<and>
   filterByExclusionAngles [] mismatched = Inr mismatched"
proof -
  have m: "length (scan mismatched) \<noteq> length (validRange mismatched)"
    by (simp add: mismatched_def constructed_def)
  from filters_assert_sizes [OF m, of "[(0, 1)]" "[((0, 0, 1, 1), 0, 1)]" box_geometry
      "[(0, 0, 1, 1)]"]
  show ?thesis by simp
qed

text \<open>
  The truncation filter has no assertion on the sizes. On an object whose \<open>validRange\<close>
  is shorter than its \<open>scan\<close> it writes past the end of \<open>validRange\<close> as soon as a ray
  beyond that end is to be invalidated: here the one ray of 1.0 is below the minimum
  distance 2.0 and \<open>validRange\<close> is empty.
\<close>

lemma truncate_short_validRange:
  "truncateByDistanceAndAngle 0x40000000 0x40000000 0 0 0 (mismatched\<lparr>validRange := []\<rparr>) =
     Inl (OutOfBounds, mismatched\<lparr>validRange := []\<rparr>)"
proof -
  have f: "float_lt 0x3F800000 0x40000000"
    by (simp add: float_lt_def isnan_def float_val_1 float_val_2)
  show ?thesis
    by (simp add: truncateByDistanceAndAngle_def mismatched_def constructed_def Let_def
        float_val_0 f)
qed

subsection \<open>An angle index that is not bounded\<close>

text \<open>
  Claim C2, at a scan of five rays over an aperture of 2.0 radians, right to left, and
  the angle pair \<open>(1.5, 1.5)\<close>: the sweep starts at \<open>-1\<close> with step \<open>0.5\<close>, the index
  computed for 1.5 is \<open>2.5 / 0.5 = 5\<close>, the number of rays; the bound
  \<^verbatim>\<open>ap_idx > (int)sizeRangeScan\<close> lets 5 through, and the write \<^verbatim>\<open>validRange[5]\<close> is past
  the end of the array.
\<close>

theorem angles_index_reaches_size:
  "ap_idx scan_5_rays (3 / 2) = Inr 5 \<and> clamp_idx (length (scan scan_5_rays)) 5 = 5 \<and>
   filterByExclusionAngles [(3 / 2, 3 / 2)] scan_5_rays = Inl (OutOfBounds, scan_5_rays)"
proof -
  have len: "length (scan scan_5_rays) = 5" "validRange scan_5_rays = [1, 1, 1, 1, 1]"
    by (simp_all add: scan_5_rays_def constructed_def)
  have c: "clamp_idx 5 5 = 5"
    by (simp add: clamp_idx_def int_of_size_def)
  have s: "size_of_int 5 = 5"
    by (simp add: size_of_int_def)
  have e: "exclude_range 5 5 5 [1, 1, 1, 1, 1] = Inl (OutOfBounds, [1, 1, 1, 1, 1])"
    by (simp add: exclude_range_def)
  have u: "scan_5_rays\<lparr>validRange := [1, 1, 1, 1, 1]\<rparr> = scan_5_rays"
    by (simp add: scan_5_rays_def)
  show ?thesis
    by (simp add: filterByExclusionAngles_def exclude_pair_def ap_idx_5 len c s e u)
qed

subsection \<open>The angle of the truncation filter\<close>

text \<open>
  Claim C3, at a scan of two rays of 1.0 over an aperture of 2.0 radians: for ray 1 the
  truncation filter computes the angle \<open>|1 * 2 / 2 - 1| = 0\<close>, while the sweep angle of
  ray 1, \<open>Ang + 1 * dA\<close> as the two other filters compute it, is 1 radian away from
  the midpoint. With \<open>max_angle = 0.5\<close> the filter invalidates ray 0 and keeps ray 1.
\<close>

theorem truncate_angle_differs:
  "truncate_ang (float_val (aperture scan_2_rays)) (length (scan scan_2_rays)) 1 = 0 \<and>
   \<bar>sweep_Ang scan_2_rays + 1 * sweep_dA scan_2_rays\<bar> = 1 \<and>
   truncateByDistanceAndAngle 0 0x3F000000 0 0 0 scan_2_rays =
     Inr (scan_2_rays\<lparr>validRange := [0, 1]\<rparr>)"
proof -
  have f: "\<not> float_lt 0x3F800000 0"
    by (simp add: float_lt_def float_val_1 float_val_0)
  have n: "\<not> isnan 0x3F000000" by (simp add: isnan_def)
  show ?thesis
    by (simp add: truncateByDistanceAndAngle_def scan_2_rays_def constructed_def float_val_2
        float_val_0 float_val_half truncate_ang_def sweep_Ang_def sweep_dA_def above_float_def
        f n Let_def)
qed

section \<open>Sizes of the arrays\<close>

text \<open>
  What does hold of the sizes: a decode that returns leaves \<open>validRange\<close> as long as
  \<open>scan\<close>, and \<open>intensity\<close> either untouched or as long as \<open>scan\<close>; a filter that returns
  has changed nothing but entries of \<open>validRange\<close> and has kept its size.
\<close>

lemma read_v0_3_sizes:
  "wp (read_v0_3 X version)
     (\<lambda>(q, t). length (validRange q) = length (scan q) \<and> intensity q = intensity r) (r, s)"
  unfolding read_v0_3_def
  by (auto simp add: wp_simps dest!: length_ReadBufferFixEndianness length_ReadBuffer)

lemma read_v4_7_sizes:
  "wp (read_v4_7 X version)
     (\<lambda>(q, t). length (validRange q) = length (scan q) \<and>
        (intensity q = intensity r \<or> length (intensity q) = length (scan q))) (r, s)"
  unfolding read_v4_7_def
  by (auto simp add: wp_simps dest!: length_ReadBufferFixEndianness length_ReadBuffer)

lemma readFromStream_sizes:
  assumes res: "readFromStream X s version r = Inr (r', s')"
  shows "length (validRange r') = length (scan r') \<and>
         (intensity r' = intensity r \<or> length (intensity r') = length (scan r'))"
proof -
  consider "version = 0 \<or> version = 1 \<or> version = 2 \<or> version = 3"
    | "version = 4 \<or> version = 5 \<or> version = 6 \<or> version = 7"
    | "\<not> (version = 0 \<or> version = 1 \<or> version = 2 \<or> version = 3)"
      "\<not> (version = 4 \<or> version = 5 \<or> version = 6 \<or> version = 7)"
    by blast
  then show ?thesis
  proof cases
    case 1
    from readFromStream_0_3 [OF 1 res] obtain q
      where q: "read_v0_3 X version (r, s) = Inr (q, s')" and r': "r' = q\<lparr>m_cachedMap := None\<rparr>"
      by auto
    from wpD [OF read_v0_3_sizes q] show ?thesis by (simp add: r')
  next
    case 2
    from readFromStream_4_7 [OF 2 res] obtain q
      where q: "read_v4_7 X version (r, s) = Inr (q, s')" and r': "r' = q\<lparr>m_cachedMap := None\<rparr>"
      by auto
    from wpD [OF read_v4_7_sizes q] show ?thesis by (simp add: r')
  next
    case 3
    with res show ?thesis by (simp add: readFromStream_def)
  qed
qed

lemma truncate_loop_length:
  "truncate_loop min_distance max_angle min_height max_height h ap nPts i ds v = Inr v' \<Longrightarrow>
   length v' = length v"
proof (induction ds arbitrary: i v)
  case Nil
  then show ?case by simp
next
  case (Cons d ds)
  from Cons.prems Cons.IH [of "Suc i" "v[i := 0]"] Cons.IH [of "Suc i" v]
  show ?case
    by (simp add: Let_def split: if_splits)
qed

lemma truncateByDistanceAndAngle_sizes:
  "truncateByDistanceAndAngle min_distance max_angle min_height max_height h r = Inr r' \<Longrightarrow>
   scan r' = scan r \<and> intensity r' = intensity r \<and>
   length (validRange r') = length (validRange r)"
  by (auto simp: truncateByDistanceAndAngle_def split: sum.splits dest: truncate_loop_length)

lemma areas_loop_length: "length (areas_loop G pose areas dA Ang ds vs) = length vs"
  by (induction G pose areas dA Ang ds vs rule: areas_loop.induct) (simp_all add: Let_def)

lemma filterByExclusionAreas_sizes:
  "filterByExclusionAreas G areas r = Inr r' \<Longrightarrow>
   scan r' = scan r \<and> intensity r' = intensity r \<and>
   length (validRange r') = length (validRange r)"
  by (auto simp: filterByExclusionAreas_def areas_loop_length split: if_splits)

lemma invalidate_length: "invalidate i n v = Inr v' \<Longrightarrow> length v' = length v"
proof (induction n arbitrary: i v)
  case 0
  then show ?case by simp
next
  case (Suc n)
  from Suc.prems Suc.IH [of "Suc i" "v[i := 0]"] show ?case
    by (simp split: if_splits)
qed

lemma exclude_pair_length: "exclude_pair r a v = Inr v' \<Longrightarrow> length v' = length v"
  by (auto simp: exclude_pair_def exclude_range_def split: sum.splits if_splits
      dest!: invalidate_length)

lemma angles_loop_length: "angles_loop r angles v = Inr v' \<Longrightarrow> length v' = length v"
proof (induction angles arbitrary: v)
  case Nil
  then show ?case by simp
next
  case (Cons a angles)
  then show ?case
    by (auto split: sum.splits dest!: exclude_pair_length)
qed

lemma filterByExclusionAngles_sizes:
  "filterByExclusionAngles angles r = Inr r' \<Longrightarrow>
   scan r' = scan r \<and> intensity r' = intensity r \<and>
   length (validRange r') = length (validRange r)"
  by (auto simp: filterByExclusionAngles_def split: if_splits sum.splits
      dest: angles_loop_length)

section \<open>The values of the default constants\<close>

lemma float_val_0_01: "float_val float_0_01 = 5368709 / 2 ^ 29"
  by (simp add: float_0_01_def float_val_def Let_def)

lemma float_0_01_close: "\<bar>float_val float_0_01 - 1 / 100\<bar> < 1 / 10 ^ 9"
  by (simp add: float_val_0_01)

lemma float_val_DEG2RAD_0_25: "float_val DEG2RAD_0_25 = 9370165 / 2 ^ 31"
  by (simp add: DEG2RAD_0_25_def float_val_def Let_def)

end
